theory Spec2Isabelle
  imports Main "HOL-Library.AList"
begin

section \<open>Text\<close>

text \<open>
  A Python \<open>str\<close> is a sequence of code points. It is modelled as a \<open>string\<close> whose
  every \<open>char\<close> is one code point below 256; the character classes below are the ones
  Python gives to those 256 code points.
\<close>

definition code :: "char \<Rightarrow> nat" where
  "code c = of_char c"

text \<open>\<open>str.isspace\<close>, which \<open>str.strip()\<close> and the pattern class \<open>\s\<close> use.\<close>

definition is_space :: "char \<Rightarrow> bool" where
  "is_space c = (let n = code c in
     (9 \<le> n \<and> n \<le> 13) \<or> (28 \<le> n \<and> n \<le> 32) \<or> n = 133 \<or> n = 160)"

text \<open>The pattern class \<open>\d\<close>: the decimal digits (below 256, only \<open>0\<close> to \<open>9\<close>).\<close>

definition is_digit :: "char \<Rightarrow> bool" where
  "is_digit c = (let n = code c in 48 \<le> n \<and> n \<le> 57)"

text \<open>
  The pattern class \<open>\w\<close>: the underscore and every alphanumeric code point
  (\<open>str.isalnum\<close>), which below 256 are the ASCII letters and digits, the superscript
  digits and fractions, and the Latin-1 letters.
\<close>

definition is_word :: "char \<Rightarrow> bool" where
  "is_word c = (let n = code c in
     (48 \<le> n \<and> n \<le> 57) \<or> (65 \<le> n \<and> n \<le> 90) \<or> n = 95 \<or> (97 \<le> n \<and> n \<le> 122) \<or>
     n = 170 \<or> n = 178 \<or> n = 179 \<or> n = 181 \<or> n = 185 \<or> n = 186 \<or>
     (188 \<le> n \<and> n \<le> 190) \<or> (192 \<le> n \<and> n \<le> 214) \<or> (216 \<le> n \<and> n \<le> 246) \<or>
     (248 \<le> n \<and> n \<le> 255))"

definition is_upper :: "char \<Rightarrow> bool" where
  "is_upper c = (let n = code c in 65 \<le> n \<and> n \<le> 90)"

definition is_hexdigit :: "char \<Rightarrow> bool" where
  "is_hexdigit c = (let n = code c in
     (48 \<le> n \<and> n \<le> 57) \<or> (65 \<le> n \<and> n \<le> 70) \<or> (97 \<le> n \<and> n \<le> 102))"

definition is_ascii :: "char \<Rightarrow> bool" where
  "is_ascii c = (code c < 128)"

text \<open>The line boundaries of \<open>str.splitlines()\<close>.\<close>

definition is_linebreak :: "char \<Rightarrow> bool" where
  "is_linebreak c = (let n = code c in
     (10 \<le> n \<and> n \<le> 13) \<or> (28 \<le> n \<and> n \<le> 30) \<or> n = 133)"

text \<open>
  \<open>str.splitlines()\<close>: the text is cut at every line boundary, \<open>\r\n\<close> counting as
  one; a boundary at the very end opens no further line. \<open>acc\<close> is the line being read,
  reversed.
\<close>

fun splitlines_from :: "string \<Rightarrow> string \<Rightarrow> string list" where
  "splitlines_from acc [] = (if acc = [] then [] else [rev acc])"
| "splitlines_from acc (c # cs) =
     (if c = CHR 0x0D then
        (case cs of
           d # ds \<Rightarrow> if d = CHR 0x0A then rev acc # splitlines_from [] ds
                     else rev acc # splitlines_from [] cs
         | [] \<Rightarrow> rev acc # splitlines_from [] cs)
      else if is_linebreak c then rev acc # splitlines_from [] cs
      else splitlines_from (c # acc) cs)"

definition splitlines :: "string \<Rightarrow> string list" where
  "splitlines data = splitlines_from [] data"

text \<open>\<open>str.startswith\<close>.\<close>

definition startswith :: "string \<Rightarrow> string \<Rightarrow> bool" where
  "startswith s pre = (take (length pre) s = pre)"

text \<open>\<open>str.strip()\<close> with no argument.\<close>

definition strip :: "string \<Rightarrow> string" where
  "strip s = rev (dropWhile is_space (rev (dropWhile is_space s)))"

text \<open>\<open>str.split(",")\<close>: the empty string splits into one empty field.\<close>

fun split_from :: "char \<Rightarrow> string \<Rightarrow> string \<Rightarrow> string list" where
  "split_from sep acc [] = [rev acc]"
| "split_from sep acc (c # cs) =
     (if c = sep then rev acc # split_from sep [] cs else split_from sep (c # acc) cs)"

definition split_comma :: "string \<Rightarrow> string list" where
  "split_comma s = split_from (CHR '','') [] s"

section \<open>Regular expressions\<close>

text \<open>
  The patterns of the parser are matched by \<open>re\<close>, a backtracking matcher. A pattern is
  modelled by the list of all the ways it can match at the head of a text, in the order
  in which backtracking tries them; \<open>Pattern.match\<close> takes the first. Each way is the
  text left over and the groups captured so far, the latest first. Repetition is only
  ever applied to a character class in the source's patterns, and is greedy: the longest
  run first.
\<close>

datatype rx =
    Eps
  | Cls "char \<Rightarrow> bool"
  | Seq rx rx
  | Alt rx rx
  | Star "char \<Rightarrow> bool"
  | Grp string rx
  | Eos

type_synonym groups = "(string \<times> string) list"

fun star_ends :: "(char \<Rightarrow> bool) \<Rightarrow> string \<Rightarrow> string list" where
  "star_ends f [] = [[]]"
| "star_ends f (x # xs) = (if f x then star_ends f xs @ [x # xs] else [x # xs])"

fun rx_match :: "rx \<Rightarrow> string \<times> groups \<Rightarrow> (string \<times> groups) list" where
  "rx_match Eps (s, g) = [(s, g)]"
| "rx_match (Cls f) (s, g) =
     (case s of [] \<Rightarrow> [] | x # xs \<Rightarrow> if f x then [(xs, g)] else [])"
| "rx_match (Seq a b) (s, g) = concat (map (rx_match b) (rx_match a (s, g)))"
| "rx_match (Alt a b) (s, g) = rx_match a (s, g) @ rx_match b (s, g)"
| "rx_match (Star f) (s, g) = map (\<lambda>r. (r, g)) (star_ends f s)"
| "rx_match (Grp n a) (s, g) =
     map (\<lambda>(r, g'). (r, (n, take (length s - length r) s) # g')) (rx_match a (s, g))"
| "rx_match Eos (s, g) = (if s = [] \<or> s = [CHR 0x0A] then [(s, g)] else [])"

text \<open>\<open>x+\<close>, \<open>x?\<close>, a literal character, and a sequence of patterns.\<close>

definition Plus :: "(char \<Rightarrow> bool) \<Rightarrow> rx" where
  "Plus f = Seq (Cls f) (Star f)"

definition Opt :: "rx \<Rightarrow> rx" where
  "Opt a = Alt a Eps"

definition Lit :: "char \<Rightarrow> rx" where
  "Lit c = Cls (\<lambda>x. x = c)"

fun Seqs :: "rx list \<Rightarrow> rx" where
  "Seqs [] = Eps"
| "Seqs [a] = a"
| "Seqs (a # as) = Seq a (Seqs as)"

fun Alts :: "rx \<Rightarrow> rx list \<Rightarrow> rx" where
  "Alts a [] = a"
| "Alts a (b # bs) = Alt a (Alts b bs)"

text \<open>
  \<open>pattern.match(text, pos)\<close>: the first way to match at \<open>pos\<close>, as the position where
  the match ends and the captured groups; \<open>None\<close> when there is none. (None of the
  patterns looks behind, so matching at \<open>pos\<close> is matching the text from \<open>pos\<close> on.)
\<close>

definition re_match :: "rx \<Rightarrow> string \<Rightarrow> nat \<Rightarrow> (nat \<times> groups) option" where
  "re_match r s pos =
     (case rx_match r (drop pos s, []) of
        [] \<Rightarrow> None
      | (rest, g) # _ \<Rightarrow> Some (length s - length rest, g))"

text \<open>\<open>match.group(name)\<close>: \<open>None\<close> for a group that took no part in the match.\<close>

definition group :: "groups \<Rightarrow> string \<Rightarrow> string option" where
  "group g n = map_of g n"

section \<open>The patterns of the parser\<close>

text \<open>\<open>_tag_re = #(?P<tag>[\w-]+)(:(?P<value>.+))?\<close>\<close>

definition tag_re :: rx where
  "tag_re = Seqs
     [Lit (CHR ''#''),
      Grp ''tag'' (Plus (\<lambda>c. is_word c \<or> c = CHR ''-'')),
      Opt (Seq (Lit (CHR '':'')) (Grp ''value'' (Plus (\<lambda>c. c \<noteq> CHR 0x0A))))]"

text \<open>\<open>_extinf_re = (?P<duration>\d+(\.\d+)?)(,(?P<title>.+))?\<close>\<close>

definition extinf_re :: rx where
  "extinf_re = Seqs
     [Grp ''duration'' (Seq (Plus is_digit) (Opt (Seq (Lit (CHR ''.'')) (Plus is_digit)))),
      Opt (Seq (Lit (CHR '','')) (Grp ''title'' (Plus (\<lambda>c. c \<noteq> CHR 0x0A))))]"

text \<open>\<open>_range_re = (?P<range>\d+)(?:@(?P<offset>\d+))?\<close>\<close>

definition range_re :: rx where
  "range_re = Seqs
     [Grp ''range'' (Plus is_digit),
      Opt (Seq (Lit (CHR ''@'')) (Grp ''offset'' (Plus is_digit)))]"

text \<open>\<open>_res_re = (\d+)x(\d+)\<close>, its two groups named by their numbers.\<close>

definition res_re :: rx where
  "res_re = Seqs [Grp ''1'' (Plus is_digit), Lit (CHR ''x''), Grp ''2'' (Plus is_digit)]"

text \<open>
  \<open>_attr_re\<close> (verbose mode: the blanks and \<open>(?# ...)\<close> remarks of the source are not
  part of the pattern):
  \<^verbatim>\<open>(?P<key>[A-Z0-9\-]+)=(?P<value>\d+|0[xX][0-9A-Fa-f]+|-?\d+\.\d+|\"(?P<quoted>[^\r\n\"]*)\"|[^\",\s]+|\d+x\d+)\s*(?:,\s*|$)\<close>
\<close>

definition attr_key_char :: "char \<Rightarrow> bool" where
  "attr_key_char c = (is_upper c \<or> is_digit c \<or> c = CHR ''-'')"

definition attr_re :: rx where
  "attr_re = Seqs
     [Grp ''key'' (Plus attr_key_char),
      Lit (CHR ''=''),
      Grp ''value'' (Alts
        (Plus is_digit)
        [Seqs [Lit (CHR ''0''), Cls (\<lambda>c. c = CHR ''x'' \<or> c = CHR ''X''), Plus is_hexdigit],
         Seqs [Opt (Lit (CHR ''-'')), Plus is_digit, Lit (CHR ''.''), Plus is_digit],
         Seqs [Lit (CHR 0x22),
               Grp ''quoted'' (Star (\<lambda>c. c \<noteq> CHR 0x0D \<and> c \<noteq> CHR 0x0A \<and> c \<noteq> CHR 0x22)),
               Lit (CHR 0x22)],
         Plus (\<lambda>c. c \<noteq> CHR 0x22 \<and> c \<noteq> CHR '','' \<and> \<not> is_space c),
         Seqs [Plus is_digit, Lit (CHR ''x''), Plus is_digit]]),
      Star is_space,
      Alt (Seq (Lit (CHR '','')) (Star is_space)) Eos]"

section \<open>Builtins\<close>

text \<open>
  \<open>int(s)\<close> on a string, base ten: white space (\<open>\t \n \v \f \r\<close>, the space, and the
  white-space code points outside ASCII; the separators \<open>0x1C\<close> to \<open>0x1F\<close> are not
  white space here), a sign, digits with single underscores between them, white space,
  and nothing else. \<open>None\<close> is the \<open>ValueError\<close>. Python's integers are unbounded.
\<close>

definition is_int_space :: "char \<Rightarrow> bool" where
  "is_int_space c = (let n = code c in (9 \<le> n \<and> n \<le> 13) \<or> n = 32 \<or> n = 133 \<or> n = 160)"

fun digits_ok :: "string \<Rightarrow> bool" where
  "digits_ok [] = False"
| "digits_ok [c] = is_digit c"
| "digits_ok (c # d # ds) =
     (if is_digit c then (if d = CHR ''_'' then ds \<noteq> [] \<and> digits_ok ds else digits_ok (d # ds))
      else False)"

definition digits_value :: "string \<Rightarrow> int" where
  "digits_value ds = foldl (\<lambda>a c. if c = CHR ''_'' then a else 10 * a + (int (code c) - 48)) 0 ds"

definition py_int :: "string \<Rightarrow> int option" where
  "py_int s =
     (let u = rev (dropWhile is_int_space (rev (dropWhile is_int_space s)));
          (neg, ds) = (case u of
                         [] \<Rightarrow> (False, [])
                       | c # cs \<Rightarrow> if c = CHR ''+'' then (False, cs)
                                   else if c = CHR ''-'' then (True, cs) else (False, u))
      in if digits_ok ds then Some (if neg then - digits_value ds else digits_value ds)
         else None)"

text \<open>
  \<open>round(n, ndigits)\<close> on an integer: \<open>n\<close> itself when \<open>ndigits\<close> is not negative,
  else the multiple of \<open>10 ^ -ndigits\<close> nearest to \<open>n\<close>, a tie going to the even multiple.
\<close>

definition py_round :: "int \<Rightarrow> int \<Rightarrow> int" where
  "py_round n ndigits =
     (if 0 \<le> ndigits then n
      else let p = 10 ^ nat (- ndigits); q = n div p; r = n mod p
           in if p < 2 * r \<or> (2 * r = p \<and> odd q) then (q + 1) * p else q * p)"

text \<open>
  \<open>int(math.log10(n))\<close> for a positive integer: the largest \<open>k\<close> with \<open>10 ^ k \<le> n\<close>.
  (\<open>math.log10\<close> computes in floating point, which is outside this model; the integer
  part is taken exactly.)
\<close>

fun ilog10 :: "nat \<Rightarrow> nat" where
  "ilog10 n = (if n < 10 then 0 else Suc (ilog10 (n div 10)))"

declare ilog10.simps [simp del]

section \<open>The data model\<close>

text \<open>
  The named tuples of the source, their fields prefixed by the tuple they belong to. A
  \<open>float\<close>, a \<open>datetime\<close> and a \<open>timedelta\<close> are values of the types \<open>'f\<close>, \<open>'d\<close> and
  \<open>'t\<close>, which the library functions below produce. A \<open>dict\<close> of strings is an
  association list in insertion order; \<open>bytes\<close> are a list of numbers below 256.
\<close>

type_synonym attrs = "(string \<times> string) list"

record Resolution =
  res_width :: int
  res_height :: int

record 'f ExtInf =
  extinf_duration :: 'f
  extinf_title :: "string option"

record ByteRange =
  br_range :: int
  br_offset :: "int option"

record ('d, 't) DateRange =
  dr_id :: "string option"
  dr_classname :: "string option"
  dr_start_date :: "'d option"
  dr_end_date :: "'d option"
  dr_duration :: "'t option"
  dr_planned_duration :: "'t option"
  dr_end_on_next :: bool
  dr_x :: attrs

record Key =
  key_method :: string
  key_uri :: "string option"
  key_iv :: "nat list option"
  key_format :: "string option"
  key_format_versions :: "string option"

record MapInfo =
  map_uri :: string
  map_byterange :: "ByteRange option"

record Media =
  media_uri :: "string option"
  media_type :: string
  media_group_id :: string
  media_language :: "string option"
  media_name :: string
  media_default :: bool
  media_autoselect :: bool
  media_forced :: bool
  media_characteristics :: "string option"

record 'f Start =
  start_time_offset :: 'f
  start_precise :: bool

text \<open>
  \<open>Union[StreamInfo, IFrameStreamInfo]\<close>: the fields of \<open>StreamInfo\<close> are bandwidth,
  program_id, codecs, resolution, audio, video, subtitles; those of \<open>IFrameStreamInfo\<close>
  are bandwidth, program_id, codecs, resolution, video.
\<close>

datatype stream_info =
    StreamInfo int "string option" "string list" "Resolution option"
      "string option" "string option" "string option"
  | IFrameStreamInfo int "string option" "string list" "Resolution option" "string option"

fun bandwidth :: "stream_info \<Rightarrow> int" where
  "bandwidth (StreamInfo b p c r a v s) = b"
| "bandwidth (IFrameStreamInfo b p c r v) = b"

text \<open>\<open>getattr(stream_info, media_type, None)\<close> for the three group kinds.\<close>

fun getattr_audio :: "stream_info \<Rightarrow> string option" where
  "getattr_audio (StreamInfo b p c r a v s) = a"
| "getattr_audio (IFrameStreamInfo b p c r v) = None"

fun getattr_video :: "stream_info \<Rightarrow> string option" where
  "getattr_video (StreamInfo b p c r a v s) = v"
| "getattr_video (IFrameStreamInfo b p c r v) = v"

fun getattr_subtitles :: "stream_info \<Rightarrow> string option" where
  "getattr_subtitles (StreamInfo b p c r a v s) = s"
| "getattr_subtitles (IFrameStreamInfo b p c r v) = None"

record Playlist =
  pl_uri :: string
  pl_stream_info :: stream_info
  pl_media :: "Media list"
  pl_is_iframe :: bool

record ('f, 'd) Segment =
  seg_uri :: string
  seg_duration :: 'f
  seg_title :: "string option"
  seg_key :: "Key option"
  seg_discontinuity :: bool
  seg_byterange :: "ByteRange option"
  seg_date :: "'d option"
  seg_map :: "MapInfo option"

record ('f, 'd, 't) M3U8 =
  uri :: "string option"
  is_endlist :: bool
  is_master :: bool
  allow_cache :: "bool option"
  discontinuity_sequence :: "int option"
  iframes_only :: "bool option"
  media_sequence :: "int option"
  playlist_type :: "string option"
  targetduration :: "'f option"
  start :: "'f Start option"
  version :: "int option"
  media :: "Media list"
  playlists :: "Playlist list"
  dateranges :: "('d, 't) DateRange list"
  segments :: "('f, 'd) Segment list"

text \<open>\<open>M3U8.__init__\<close>\<close>

definition M3U8_init :: "string option \<Rightarrow> ('f, 'd, 't) M3U8" where
  "M3U8_init u =
     \<lparr>uri = u, is_endlist = False, is_master = False, allow_cache = None,
      discontinuity_sequence = None, iframes_only = None, media_sequence = None,
      playlist_type = None, targetduration = None, start = None, version = None,
      media = [], playlists = [], dateranges = [], segments = []\<rparr>"

text \<open>
  The parser: the document under construction and the pending fields (\<open>_expect_playlist\<close>
  and so on in the source). \<open>warnings\<close> is the side channel: the messages given to
  \<open>log.warning\<close>, in order.
\<close>

record ('f, 'd, 't) M3U8Parser =
  m3u8 :: "('f, 'd, 't) M3U8"
  p_expect_playlist :: bool
  p_streaminf :: "attrs option"
  p_expect_segment :: bool
  p_extinf :: "'f ExtInf option"
  p_byterange :: "ByteRange option"
  p_discontinuity :: bool
  p_map :: "MapInfo option"
  p_key :: "Key option"
  p_date :: "'d option"
  warnings :: "string list"

text \<open>\<open>M3U8Parser.__init__\<close>\<close>

definition M3U8Parser_init :: "string option \<Rightarrow> ('f, 'd, 't) M3U8Parser" where
  "M3U8Parser_init base_uri =
     \<lparr>m3u8 = M3U8_init base_uri, p_expect_playlist = False, p_streaminf = None,
      p_expect_segment = False, p_extinf = None, p_byterange = None,
      p_discontinuity = False, p_map = None, p_key = None, p_date = None,
      warnings = []\<rparr>"

text \<open>
  The exceptions that leave the parser. The first five are a \<open>ValueError\<close>: the
  missing header, \<open>int\<close> and \<open>float\<close> refusing a string, \<open>math.log10\<close> of a number
  that is not positive, \<open>unhexlify\<close> of a string with a code point outside ASCII.
  \<open>TimedeltaError\<close> is what \<open>timedelta\<close> raises on a number of seconds it cannot hold,
  \<open>TypeError\<close> what \<open>int\<close> and \<open>float\<close> raise on \<open>None\<close>.
\<close>

datatype error =
    MissingHeader
  | InvalidInt string
  | InvalidFloat string
  | MathDomainError
  | NonAsciiHex
  | TimedeltaError
  | TypeError

text \<open>
  The library the parser calls and this repository does not hold: \<open>float\<close> on a string
  (\<open>None\<close>: it raises \<open>ValueError\<close>) and on the integer \<open>0\<close>,
  \<open>isodate.parse_datetime\<close> (\<open>None\<close>: it raises \<open>ISO8601Error\<close> or \<open>ValueError\<close>),
  \<open>timedelta(seconds=x)\<close> (\<open>None\<close>: it raises), whether \<open>urlparse\<close> finds a scheme,
  and \<open>urljoin\<close>.
\<close>

record ('f, 'd, 't) stdlib =
  float_of_str :: "string \<Rightarrow> 'f option"
  float_of_int :: "int \<Rightarrow> 'f"
  parse_datetime :: "string \<Rightarrow> 'd option"
  timedelta_seconds :: "'f \<Rightarrow> 't option"
  urlparse_scheme :: "string \<Rightarrow> string"
  urljoin :: "string \<Rightarrow> string \<Rightarrow> string"

section \<open>Scalar decoders\<close>

text \<open>\<open>dict.get(k)\<close>, \<open>d[k] = v\<close>, \<open>dict.pop(k, None)\<close>, and the truth of an optional string.\<close>

definition dict_get :: "attrs \<Rightarrow> string \<Rightarrow> string option" where
  "dict_get d k = map_of d k"

definition dict_set :: "attrs \<Rightarrow> string \<Rightarrow> string \<Rightarrow> attrs" where
  "dict_set d k v = AList.update k v d"

definition dict_pop :: "attrs \<Rightarrow> string \<Rightarrow> string option \<times> attrs" where
  "dict_pop d k = (map_of d k, AList.delete k d)"

definition truthy :: "string option \<Rightarrow> bool" where
  "truthy v = (case v of None \<Rightarrow> False | Some s \<Rightarrow> s \<noteq> [])"

text \<open>\<open>int(x)\<close> and \<open>float(x)\<close> where \<open>x\<close> is a string or \<open>None\<close>.\<close>

definition int_of :: "string option \<Rightarrow> error + int" where
  "int_of x =
     (case x of
        None \<Rightarrow> Inl TypeError
      | Some s \<Rightarrow> (case py_int s of None \<Rightarrow> Inl (InvalidInt s) | Some n \<Rightarrow> Inr n))"

definition float_of :: "('f, 'd, 't) stdlib \<Rightarrow> string option \<Rightarrow> error + 'f" where
  "float_of E x =
     (case x of
        None \<Rightarrow> Inl TypeError
      | Some s \<Rightarrow> (case float_of_str E s of None \<Rightarrow> Inl (InvalidFloat s) | Some f \<Rightarrow> Inr f))"

definition parse_bool :: "string \<Rightarrow> bool" where
  "parse_bool v = (v = ''YES'')"

definition parse_resolution :: "string \<Rightarrow> error + Resolution" where
  "parse_resolution v =
     (case re_match res_re v 0 of
        None \<Rightarrow> Inr \<lparr>res_width = 0, res_height = 0\<rparr>
      | Some (e, g) \<Rightarrow>
          (case int_of (group g ''1'') of
             Inl err \<Rightarrow> Inl err
           | Inr w \<Rightarrow>
               (case int_of (group g ''2'') of
                  Inl err \<Rightarrow> Inl err
                | Inr h \<Rightarrow> Inr \<lparr>res_width = w, res_height = h\<rparr>)))"

definition parse_byterange :: "string \<Rightarrow> error + ByteRange option" where
  "parse_byterange v =
     (case re_match range_re v 0 of
        None \<Rightarrow> Inr None
      | Some (e, g) \<Rightarrow>
          (case int_of (group g ''range'') of
             Inl err \<Rightarrow> Inl err
           | Inr r \<Rightarrow>
               (case group g ''offset'' of
                  None \<Rightarrow> Inr (Some \<lparr>br_range = r, br_offset = None\<rparr>)
                | Some off \<Rightarrow>
                    (case int_of (Some off) of
                       Inl err \<Rightarrow> Inl err
                     | Inr n \<Rightarrow> Inr (Some \<lparr>br_range = r, br_offset = Some n\<rparr>)))))"

text \<open>\<open>ExtInf(0, None)\<close> holds the integer \<open>0\<close> as its duration: here \<open>float_of_int E 0\<close>.\<close>

definition parse_extinf :: "('f, 'd, 't) stdlib \<Rightarrow> string \<Rightarrow> error + 'f ExtInf" where
  "parse_extinf E v =
     (case re_match extinf_re v 0 of
        None \<Rightarrow> Inr \<lparr>extinf_duration = float_of_int E 0, extinf_title = None\<rparr>
      | Some (e, g) \<Rightarrow>
          (case float_of E (group g ''duration'') of
             Inl err \<Rightarrow> Inl err
           | Inr d \<Rightarrow> Inr \<lparr>extinf_duration = d, extinf_title = group g ''title''\<rparr>))"

text \<open>
  \<open>binascii.unhexlify\<close> on a string: \<open>ValueError\<close> on a code point outside ASCII,
  \<open>binascii.Error\<close> (here \<open>Inr None\<close>) on an odd length or a character that is no
  hexadecimal digit.
\<close>

definition hexval :: "char \<Rightarrow> nat" where
  "hexval c = (let n = code c in
     if n \<le> 57 then n - 48 else if n \<le> 70 then n - 55 else n - 87)"

fun hex_pairs :: "string \<Rightarrow> nat list option" where
  "hex_pairs [] = Some []"
| "hex_pairs [c] = None"
| "hex_pairs (c # d # cs) =
     (if is_hexdigit c \<and> is_hexdigit d
      then map_option (\<lambda>bs. (16 * hexval c + hexval d) # bs) (hex_pairs cs)
      else None)"

definition unhexlify :: "string \<Rightarrow> error + nat list option" where
  "unhexlify s = (if list_all is_ascii s then Inr (hex_pairs s) else Inl NonAsciiHex)"

text \<open>The decoders that warn return the messages they give to \<open>log.warning\<close>.\<close>

definition parse_hex :: "string option \<Rightarrow> error + (nat list option \<times> string list)" where
  "parse_hex x =
     (case x of
        None \<Rightarrow> Inr (None, [])
      | Some v \<Rightarrow>
          (if take 2 v = ''0x'' \<or> take 2 v = ''0X'' then
             (case unhexlify (replicate (length v mod 2) (CHR ''0'') @ drop 2 v) of
                Inl err \<Rightarrow> Inl err
              | Inr (Some bs) \<Rightarrow> Inr (Some bs, [])
              | Inr None \<Rightarrow> Inr (None, [''Discarded invalid hexadecimal-sequence attribute value'']))
           else Inr (None, [''Discarded invalid hexadecimal-sequence attribute value''])))"

definition parse_iso8601 :: "('f, 'd, 't) stdlib \<Rightarrow> string option \<Rightarrow> 'd option \<times> string list" where
  "parse_iso8601 E x =
     (case x of
        None \<Rightarrow> (None, [])
      | Some v \<Rightarrow>
          (case parse_datetime E v of
             Some d \<Rightarrow> (Some d, [])
           | None \<Rightarrow> (None, [''Discarded invalid ISO8601 attribute value''])))"

definition parse_timedelta :: "('f, 'd, 't) stdlib \<Rightarrow> string option \<Rightarrow> error + 't option" where
  "parse_timedelta E x =
     (case x of
        None \<Rightarrow> Inr None
      | Some v \<Rightarrow>
          (case float_of E (Some v) of
             Inl err \<Rightarrow> Inl err
           | Inr f \<Rightarrow>
               (case timedelta_seconds E f of
                  None \<Rightarrow> Inl TimedeltaError
                | Some t \<Rightarrow> Inr (Some t))))"

text \<open>
  \<open>create_stream_info\<close>; \<open>iframe\<close> says that \<open>streaminfoclass\<close> is
  \<open>IFrameStreamInfo\<close>. Its assignments to \<open>bandwidth\<close> and \<open>resolution\<close> are
  \<open>stream_bandwidth\<close> and \<open>stream_resolution\<close>, each on what \<open>streaminf.get\<close> gave.
  The bandwidth is \<open>0\<close> when the attribute is absent or the empty string; otherwise
  \<open>int\<close>, then \<open>math.log10\<close>, then \<open>round\<close>.
\<close>

definition stream_bandwidth :: "string option \<Rightarrow> error + int" where
  "stream_bandwidth bw =
     (if \<not> truthy bw then Inr 0
      else (case int_of bw of
              Inl err \<Rightarrow> Inl err
            | Inr n \<Rightarrow>
                if n \<le> 0 then Inl MathDomainError
                else Inr (py_round n (1 - int (ilog10 (nat n))))))"

definition stream_resolution :: "string option \<Rightarrow> error + Resolution option" where
  "stream_resolution res =
     (case res of
        None \<Rightarrow> Inr None
      | Some rv \<Rightarrow>
          if rv = [] then Inr None
          else (case parse_resolution rv of
                  Inl err \<Rightarrow> Inl err
                | Inr r \<Rightarrow> Inr (Some r)))"

definition create_stream_info :: "attrs \<Rightarrow> bool \<Rightarrow> error + stream_info" where
  "create_stream_info streaminf iframe =
     (case stream_bandwidth (dict_get streaminf ''BANDWIDTH'') of
        Inl err \<Rightarrow> Inl err
      | Inr b \<Rightarrow>
          (case stream_resolution (dict_get streaminf ''RESOLUTION'') of
             Inl err \<Rightarrow> Inl err
           | Inr r \<Rightarrow>
               if iframe
               then Inr (IFrameStreamInfo b
                           (dict_get streaminf ''PROGRAM-ID'')
                           (split_comma (case dict_get streaminf ''CODECS'' of
                                           None \<Rightarrow> [] | Some c \<Rightarrow> c))
                           r
                           (dict_get streaminf ''VIDEO''))
               else Inr (StreamInfo b
                           (dict_get streaminf ''PROGRAM-ID'')
                           (split_comma (case dict_get streaminf ''CODECS'' of
                                           None \<Rightarrow> [] | Some c \<Rightarrow> c))
                           r
                           (dict_get streaminf ''AUDIO'')
                           (dict_get streaminf ''VIDEO'')
                           (dict_get streaminf ''SUBTITLES''))))"

text \<open>
  \<open>split_tag\<close>: the tag and the stripped value, the empty string standing for a value
  that is not there; \<open>(None, None)\<close> when the line does not match.
\<close>

definition split_tag :: "string \<Rightarrow> string option \<times> string option" where
  "split_tag line =
     (case re_match tag_re line 0 of
        Some (e, g) \<Rightarrow>
          (group g ''tag'', Some (strip (case group g ''value'' of None \<Rightarrow> [] | Some v \<Rightarrow> v)))
      | None \<Rightarrow> (None, None))"

text \<open>
  \<open>parse_attributes\<close>: the loop matches \<open>_attr_re\<close> at \<open>pos\<close> until the end of the
  value; the entry stored is the \<open>quoted\<close> group when it took part, else the \<open>value\<close>
  group. The loop ends because every match takes at least the key.
\<close>

lemma star_ends_length: "r \<in> set (star_ends f s) \<Longrightarrow> length r \<le> length s"
  by (induction s) (auto split: if_splits)

lemma rx_match_length: "(r, g') \<in> set (rx_match a (s, g)) \<Longrightarrow> length r \<le> length s"
proof (induction a arbitrary: s g r g')
  case (Seq a b)
  then obtain m h where "(m, h) \<in> set (rx_match a (s, g))" "(r, g') \<in> set (rx_match b (m, h))"
    by auto
  with Seq.IH show ?case by (meson le_trans)
next
  case (Star f)
  then show ?case by (auto dest: star_ends_length)
qed (auto split: list.splits if_splits)

lemma rx_match_Seq:
  "(r, g') \<in> set (rx_match (Seq a b) (s, g)) \<longleftrightarrow>
   (\<exists>m h. (m, h) \<in> set (rx_match a (s, g)) \<and> (r, g') \<in> set (rx_match b (m, h)))"
  by auto

lemma rx_match_Grp:
  "(r, g') \<in> set (rx_match (Grp n a) (s, g)) \<longleftrightarrow>
   (\<exists>h. (r, h) \<in> set (rx_match a (s, g)) \<and> g' = (n, take (length s - length r) s) # h)"
  by auto

lemma rx_match_Cls:
  "(r, g') \<in> set (rx_match (Cls f) (s, g)) \<longleftrightarrow> (\<exists>x. s = x # r \<and> f x \<and> g' = g)"
  by (auto split: list.splits)

lemma rx_match_Plus_length:
  assumes "(r, g') \<in> set (rx_match (Plus f) (s, g))"
  shows "length r < length s"
proof -
  from assms obtain m h where
    "(m, h) \<in> set (rx_match (Cls f) (s, g))" "(r, g') \<in> set (rx_match (Star f) (m, h))"
    unfolding Plus_def rx_match_Seq by blast
  then show ?thesis
    using rx_match_length[of r g' "Star f" m h] unfolding rx_match_Cls by auto
qed

lemma attr_re_progress:
  assumes "re_match attr_re v pos = Some (e, g)" and "pos < length v"
  shows "pos < e"
proof -
  obtain rest where rest: "(rest, g) \<in> set (rx_match attr_re (drop pos v, []))"
    and e: "e = length v - length rest"
    using assms(1) by (auto simp: re_match_def split: list.splits)
  obtain tl where split: "attr_re = Seq (Grp ''key'' (Plus attr_key_char)) tl"
    by (simp add: attr_re_def)
  from rest obtain m h where
    m: "(m, h) \<in> set (rx_match (Grp ''key'' (Plus attr_key_char)) (drop pos v, []))"
    and r: "(rest, g) \<in> set (rx_match tl (m, h))"
    unfolding split rx_match_Seq by blast
  from m obtain h' where "(m, h') \<in> set (rx_match (Plus attr_key_char) (drop pos v, []))"
    unfolding rx_match_Grp by blast
  then have "length m < length (drop pos v)"
    by (rule rx_match_Plus_length)
  moreover have "length rest \<le> length m"
    using r by (rule rx_match_length)
  ultimately show ?thesis
    using assms(2) e by simp
qed

function parse_attributes_loop :: "string \<Rightarrow> nat \<Rightarrow> attrs \<Rightarrow> attrs \<times> string list" where
  "parse_attributes_loop v pos res =
     (if pos < length v then
        (case re_match attr_re v pos of
           None \<Rightarrow> ([], [''Discarded invalid attributes list''])
         | Some (e, g) \<Rightarrow>
             (case group g ''key'' of
                None \<Rightarrow> parse_attributes_loop v e res
              | Some k \<Rightarrow>
                  (case group g ''quoted'' of
                     Some q \<Rightarrow> parse_attributes_loop v e (dict_set res k q)
                   | None \<Rightarrow>
                       (case group g ''value'' of
                          Some x \<Rightarrow> parse_attributes_loop v e (dict_set res k x)
                        | None \<Rightarrow> parse_attributes_loop v e res))))
      else (res, []))"
  by pat_completeness auto
termination
  by (relation "measure (\<lambda>(v, pos, res). length v - pos)")
     (auto dest: attr_re_progress)

declare parse_attributes_loop.simps [simp del]

definition parse_attributes :: "string \<Rightarrow> attrs \<times> string list" where
  "parse_attributes v = parse_attributes_loop v 0 []"

section \<open>The parser\<close>

text \<open>\<open>M3U8Parser.uri\<close>, the reference resolver.\<close>

definition parser_uri :: "('f, 'd, 't) stdlib \<Rightarrow> ('f, 'd, 't) M3U8Parser \<Rightarrow> string \<Rightarrow> string" where
  "parser_uri E s u =
     (if u \<noteq> [] \<and> urlparse_scheme E u \<noteq> [] then u
      else if u \<noteq> [] \<and> truthy (uri (m3u8 s))
           then (case uri (m3u8 s) of Some base \<Rightarrow> urljoin E base u | None \<Rightarrow> u)
      else u)"

definition warn :: "string list \<Rightarrow> ('f, 'd, 't) M3U8Parser \<Rightarrow> ('f, 'd, 't) M3U8Parser" where
  "warn ws s = s\<lparr>warnings := warnings s @ ws\<rparr>"

text \<open>
  The tag handlers. Each takes the library, the parser and the value of the directive,
  and returns the parser it leaves, or the exception that leaves it.
\<close>

type_synonym ('f, 'd, 't) handler =
  "('f, 'd, 't) stdlib \<Rightarrow> ('f, 'd, 't) M3U8Parser \<Rightarrow> string \<Rightarrow> error + ('f, 'd, 't) M3U8Parser"

definition parse_tag_ext_x_version :: "('f, 'd, 't) handler" where
  "parse_tag_ext_x_version E s v =
     (case int_of (Some v) of
        Inl err \<Rightarrow> Inl err
      | Inr n \<Rightarrow> Inr (s\<lparr>m3u8 := (m3u8 s)\<lparr>version := Some n\<rparr>\<rparr>))"

definition parse_tag_extinf :: "('f, 'd, 't) handler" where
  "parse_tag_extinf E s v =
     (case parse_extinf E v of
        Inl err \<Rightarrow> Inl err
      | Inr x \<Rightarrow> Inr (s\<lparr>p_expect_segment := True, p_extinf := Some x\<rparr>))"

definition parse_tag_ext_x_byterange :: "('f, 'd, 't) handler" where
  "parse_tag_ext_x_byterange E s v =
     (case parse_byterange v of
        Inl err \<Rightarrow> Inl err
      | Inr b \<Rightarrow> Inr (s\<lparr>p_expect_segment := True, p_byterange := b\<rparr>))"

definition parse_tag_ext_x_discontinuity :: "('f, 'd, 't) handler" where
  "parse_tag_ext_x_discontinuity E s v = Inr (s\<lparr>p_discontinuity := True, p_map := None\<rparr>)"

definition parse_tag_ext_x_key :: "('f, 'd, 't) handler" where
  "parse_tag_ext_x_key E s v =
     (let (attr, ws) = parse_attributes v;
          s1 = warn ws s;
          method = dict_get attr ''METHOD'';
          u = dict_get attr ''URI''
      in case method of
           None \<Rightarrow> Inr s1
         | Some m \<Rightarrow>
             if m = [] then Inr s1
             else (case parse_hex (dict_get attr ''IV'') of
                     Inl err \<Rightarrow> Inl err
                   | Inr (iv, ws') \<Rightarrow>
                       Inr ((warn ws' s1)\<lparr>p_key := Some
                         \<lparr>key_method = m,
                          key_uri = (case u of
                                       None \<Rightarrow> None
                                     | Some x \<Rightarrow> if x = [] then None else Some (parser_uri E s x)),
                          key_iv = iv,
                          key_format = dict_get attr ''KEYFORMAT'',
                          key_format_versions = dict_get attr ''KEYFORMATVERSIONS''\<rparr>\<rparr>)))"

definition parse_tag_ext_x_map :: "('f, 'd, 't) handler" where
  "parse_tag_ext_x_map E s v =
     (let (attr, ws) = parse_attributes v;
          s1 = warn ws s
      in case dict_get attr ''URI'' of
           None \<Rightarrow> Inr s1
         | Some u \<Rightarrow>
             if u = [] then Inr s1
             else (case parse_byterange
                          (case dict_get attr ''BYTERANGE'' of None \<Rightarrow> [] | Some b \<Rightarrow> b) of
                     Inl err \<Rightarrow> Inl err
                   | Inr br \<Rightarrow>
                       Inr (s1\<lparr>p_map := Some \<lparr>map_uri = parser_uri E s u, map_byterange = br\<rparr>\<rparr>)))"

definition parse_tag_ext_x_program_date_time :: "('f, 'd, 't) handler" where
  "parse_tag_ext_x_program_date_time E s v =
     (let (d, ws) = parse_iso8601 E (Some v) in Inr ((warn ws s)\<lparr>p_date := d\<rparr>))"

definition parse_tag_ext_x_daterange :: "('f, 'd, 't) handler" where
  "parse_tag_ext_x_daterange E s v =
     (let (attr, ws) = parse_attributes v;
          (ident, a1) = dict_pop attr ''ID'';
          (cls, a2) = dict_pop a1 ''CLASS'';
          (sd, a3) = dict_pop a2 ''START-DATE'';
          (start_date, ws1) = parse_iso8601 E sd;
          (ed, a4) = dict_pop a3 ''END-DATE'';
          (end_date, ws2) = parse_iso8601 E ed;
          (du, a5) = dict_pop a4 ''DURATION''
      in case parse_timedelta E du of
           Inl err \<Rightarrow> Inl err
         | Inr duration \<Rightarrow>
             (let (pd, a6) = dict_pop a5 ''PLANNED-DURATION''
              in case parse_timedelta E pd of
                   Inl err \<Rightarrow> Inl err
                 | Inr planned \<Rightarrow>
                     (let (eon, a7) = dict_pop a6 ''END-ON-NEXT'';
                          daterange =
                            \<lparr>dr_id = ident, dr_classname = cls, dr_start_date = start_date,
                             dr_end_date = end_date, dr_duration = duration,
                             dr_planned_duration = planned,
                             dr_end_on_next =
                               parse_bool (case eon of None \<Rightarrow> ''NO'' | Some x \<Rightarrow> x),
                             dr_x = a7\<rparr>;
                          s1 = warn (ws @ ws1 @ ws2) s
                      in Inr (s1\<lparr>m3u8 := (m3u8 s1)
                                \<lparr>dateranges := dateranges (m3u8 s1) @ [daterange]\<rparr>\<rparr>))))"

definition parse_tag_ext_x_targetduration :: "('f, 'd, 't) handler" where
  "parse_tag_ext_x_targetduration E s v =
     (case float_of E (Some v) of
        Inl err \<Rightarrow> Inl err
      | Inr f \<Rightarrow> Inr (s\<lparr>m3u8 := (m3u8 s)\<lparr>targetduration := Some f\<rparr>\<rparr>))"

definition parse_tag_ext_x_media_sequence :: "('f, 'd, 't) handler" where
  "parse_tag_ext_x_media_sequence E s v =
     (case int_of (Some v) of
        Inl err \<Rightarrow> Inl err
      | Inr n \<Rightarrow> Inr (s\<lparr>m3u8 := (m3u8 s)\<lparr>media_sequence := Some n\<rparr>\<rparr>))"

definition parse_tag_ext_x_discontinuity_sequence :: "('f, 'd, 't) handler" where
  "parse_tag_ext_x_discontinuity_sequence E s v =
     (case int_of (Some v) of
        Inl err \<Rightarrow> Inl err
      | Inr n \<Rightarrow> Inr (s\<lparr>m3u8 := (m3u8 s)\<lparr>discontinuity_sequence := Some n\<rparr>\<rparr>))"

definition parse_tag_ext_x_endlist :: "('f, 'd, 't) handler" where
  "parse_tag_ext_x_endlist E s v = Inr (s\<lparr>m3u8 := (m3u8 s)\<lparr>is_endlist := True\<rparr>\<rparr>)"

definition parse_tag_ext_x_playlist_type :: "('f, 'd, 't) handler" where
  "parse_tag_ext_x_playlist_type E s v = Inr (s\<lparr>m3u8 := (m3u8 s)\<lparr>playlist_type := Some v\<rparr>\<rparr>)"

definition parse_tag_ext_x_i_frames_only :: "('f, 'd, 't) handler" where
  "parse_tag_ext_x_i_frames_only E s v = Inr (s\<lparr>m3u8 := (m3u8 s)\<lparr>iframes_only := Some True\<rparr>\<rparr>)"

definition parse_tag_ext_x_media :: "('f, 'd, 't) handler" where
  "parse_tag_ext_x_media E s v =
     (let (attr, ws) = parse_attributes v;
          s1 = warn ws s;
          ty = dict_get attr ''TYPE'';
          u = dict_get attr ''URI'';
          group_id = dict_get attr ''GROUP-ID'';
          name = dict_get attr ''NAME''
      in case (ty, group_id, name) of
           (Some t, Some gid, Some n) \<Rightarrow>
             if t = [] \<or> gid = [] \<or> n = [] then Inr s1
             else Inr (s1\<lparr>m3u8 := (m3u8 s1)\<lparr>media := media (m3u8 s1) @
               [\<lparr>media_uri = (case u of
                                None \<Rightarrow> None
                              | Some x \<Rightarrow> if x = [] then None else Some (parser_uri E s x)),
                 media_type = t,
                 media_group_id = gid,
                 media_language = dict_get attr ''LANGUAGE'',
                 media_name = n,
                 media_default =
                   parse_bool (case dict_get attr ''DEFAULT'' of None \<Rightarrow> ''NO'' | Some x \<Rightarrow> x),
                 media_autoselect =
                   parse_bool (case dict_get attr ''AUTOSELECT'' of None \<Rightarrow> ''NO'' | Some x \<Rightarrow> x),
                 media_forced =
                   parse_bool (case dict_get attr ''FORCED'' of None \<Rightarrow> ''NO'' | Some x \<Rightarrow> x),
                 media_characteristics = dict_get attr ''CHARACTERISTICS''\<rparr>]\<rparr>\<rparr>)
         | _ \<Rightarrow> Inr s1)"

definition parse_tag_ext_x_stream_inf :: "('f, 'd, 't) handler" where
  "parse_tag_ext_x_stream_inf E s v =
     (let (attr, ws) = parse_attributes v
      in Inr ((warn ws s)\<lparr>p_expect_playlist := True, p_streaminf := Some attr\<rparr>))"

text \<open>
  \<open>self._streaminf or attr\<close>: the pending attributes when there are some (a dictionary
  that is not empty), else the attributes of the tag itself.
\<close>

definition parse_tag_ext_x_i_frame_stream_inf :: "('f, 'd, 't) handler" where
  "parse_tag_ext_x_i_frame_stream_inf E s v =
     (let (attr, ws) = parse_attributes v;
          u = dict_get attr ''URI'';
          streaminf = (case p_streaminf s of
                         None \<Rightarrow> attr
                       | Some pending \<Rightarrow> if pending = [] then attr else pending);
          s1 = (warn ws s)\<lparr>p_streaminf := None\<rparr>
      in case u of
           None \<Rightarrow> Inr s1
         | Some x \<Rightarrow>
             if x = [] then Inr s1
             else (case create_stream_info streaminf True of
                     Inl err \<Rightarrow> Inl err
                   | Inr stream_info \<Rightarrow>
                       Inr (s1\<lparr>m3u8 := (m3u8 s1)\<lparr>playlists := playlists (m3u8 s1) @
                         [\<lparr>pl_uri = parser_uri E s x, pl_stream_info = stream_info,
                           pl_media = [], pl_is_iframe = True\<rparr>]\<rparr>\<rparr>)))"

definition parse_tag_ext_x_session_data :: "('f, 'd, 't) handler" where
  "parse_tag_ext_x_session_data E s v = Inr s"

definition parse_tag_ext_x_session_key :: "('f, 'd, 't) handler" where
  "parse_tag_ext_x_session_key E s v = Inr s"

definition parse_tag_ext_x_independent_segments :: "('f, 'd, 't) handler" where
  "parse_tag_ext_x_independent_segments E s v = Inr s"

definition parse_tag_ext_x_start :: "('f, 'd, 't) handler" where
  "parse_tag_ext_x_start E s v =
     (let (attr, ws) = parse_attributes v;
          s1 = warn ws s
      in case (case dict_get attr ''TIME-OFFSET'' of
                 None \<Rightarrow> Inr (float_of_int E 0)
               | Some x \<Rightarrow> float_of E (Some x)) of
           Inl err \<Rightarrow> Inl err
         | Inr off \<Rightarrow>
             Inr (s1\<lparr>m3u8 := (m3u8 s1)\<lparr>start := Some
               \<lparr>start_time_offset = off,
                start_precise =
                  parse_bool (case dict_get attr ''PRECISE'' of None \<Rightarrow> ''NO'' | Some x \<Rightarrow> x)\<rparr>\<rparr>\<rparr>))"

definition parse_tag_ext_x_allow_cache :: "('f, 'd, 't) handler" where
  "parse_tag_ext_x_allow_cache E s v = Inr (s\<lparr>m3u8 := (m3u8 s)\<lparr>allow_cache := Some (parse_bool v)\<rparr>\<rparr>)"

text \<open>
  \<open>_TAGS\<close>, the registry the metaclass collects from the \<open>parse_tag\<close> decorators: the
  tag names are the strings given to the decorator.
\<close>

definition TAGS :: "(string \<times> ('f, 'd, 't) handler) list" where
  "TAGS =
     [(''EXT-X-VERSION'', parse_tag_ext_x_version),
      (''EXTINF'', parse_tag_extinf),
      (''EXT-X-BYTERANGE'', parse_tag_ext_x_byterange),
      (''EXT-X-DISCONTINUITY'', parse_tag_ext_x_discontinuity),
      (''EXT-X-KEY'', parse_tag_ext_x_key),
      (''EXT-X-MAP'', parse_tag_ext_x_map),
      (''EXT-X-PROGRAM-DATE-TIME'', parse_tag_ext_x_program_date_time),
      (''EXT-X-DATERANGE'', parse_tag_ext_x_daterange),
      (''EXT-X-TARGETDURATION'', parse_tag_ext_x_targetduration),
      (''EXT-X-MEDIA-SEQUENCE'', parse_tag_ext_x_media_sequence),
      (''EXT-X-DISCONTINUTY-SEQUENCE'', parse_tag_ext_x_discontinuity_sequence),
      (''EXT-X-ENDLIST'', parse_tag_ext_x_endlist),
      (''EXT-X-PLAYLIST-TYPE'', parse_tag_ext_x_playlist_type),
      (''EXT-X-I-FRAMES-ONLY'', parse_tag_ext_x_i_frames_only),
      (''EXT-X-MEDIA'', parse_tag_ext_x_media),
      (''EXT-X-STREAM-INF'', parse_tag_ext_x_stream_inf),
      (''EXT-X-I-FRAME-STREAM-INF'', parse_tag_ext_x_i_frame_stream_inf),
      (''EXT-X-SESSION-DATA'', parse_tag_ext_x_session_data),
      (''EXT-X-SESSION-KEY'', parse_tag_ext_x_session_key),
      (''EXT-X-INDEPENDENT-SEGMENTS'', parse_tag_ext_x_independent_segments),
      (''EXT-X-START'', parse_tag_ext_x_start),
      (''EXT-X-ALLOW-CACHE'', parse_tag_ext_x_allow_cache)]"

text \<open>
  \<open>get_segment\<close> and \<open>get_playlist\<close>: the entity built from the pending fields, and
  the parser with those fields cleared.
\<close>

definition get_segment ::
  "('f, 'd, 't) stdlib \<Rightarrow> ('f, 'd, 't) M3U8Parser \<Rightarrow> string
     \<Rightarrow> ('f, 'd) Segment \<times> ('f, 'd, 't) M3U8Parser" where
  "get_segment E s u =
     (let extinf = (case p_extinf s of
                      None \<Rightarrow> \<lparr>extinf_duration = float_of_int E 0, extinf_title = None\<rparr>
                    | Some x \<Rightarrow> x)
      in (\<lparr>seg_uri = u, seg_duration = extinf_duration extinf, seg_title = extinf_title extinf,
           seg_key = p_key s, seg_discontinuity = p_discontinuity s,
           seg_byterange = p_byterange s, seg_date = p_date s, seg_map = p_map s\<rparr>,
          s\<lparr>p_extinf := None, p_discontinuity := False, p_byterange := None, p_date := None\<rparr>))"

definition get_playlist ::
  "('f, 'd, 't) M3U8Parser \<Rightarrow> string \<Rightarrow> error + (Playlist \<times> ('f, 'd, 't) M3U8Parser)" where
  "get_playlist s u =
     (let streaminf = (case p_streaminf s of None \<Rightarrow> [] | Some pending \<Rightarrow> pending)
      in case create_stream_info streaminf False of
           Inl err \<Rightarrow> Inl err
         | Inr stream_info \<Rightarrow>
             Inr (\<lparr>pl_uri = u, pl_stream_info = stream_info, pl_media = [], pl_is_iframe = False\<rparr>,
                  s\<lparr>p_streaminf := None\<rparr>))"

text \<open>\<open>parse_line\<close>\<close>

definition parse_line ::
  "('f, 'd, 't) stdlib \<Rightarrow> ('f, 'd, 't) M3U8Parser \<Rightarrow> string \<Rightarrow> error + ('f, 'd, 't) M3U8Parser" where
  "parse_line E s line =
     (if startswith line ''#'' then
        (case split_tag line of
           (Some tag, Some v) \<Rightarrow>
             if tag = [] then Inr s
             else (case map_of TAGS tag of
                     None \<Rightarrow> Inr s
                   | Some handler \<Rightarrow> handler E s v)
         | _ \<Rightarrow> Inr s)
      else if p_expect_segment s then
        (let s1 = s\<lparr>p_expect_segment := False\<rparr>;
             (segment, s2) = get_segment E s1 (parser_uri E s1 line)
         in Inr (s2\<lparr>m3u8 := (m3u8 s2)\<lparr>segments := segments (m3u8 s2) @ [segment]\<rparr>\<rparr>))
      else if p_expect_playlist s then
        (let s1 = s\<lparr>p_expect_playlist := False\<rparr>
         in case get_playlist s1 (parser_uri E s1 line) of
              Inl err \<Rightarrow> Inl err
            | Inr (playlist, s2) \<Rightarrow>
                Inr (s2\<lparr>m3u8 := (m3u8 s2)\<lparr>playlists := playlists (m3u8 s2) @ [playlist]\<rparr>\<rparr>))
      else Inr s)"

text \<open>The loop \<open>for line in lines: parse_line(line)\<close>; an exception ends it.\<close>

fun parse_lines ::
  "('f, 'd, 't) stdlib \<Rightarrow> ('f, 'd, 't) M3U8Parser \<Rightarrow> string list
     \<Rightarrow> error + ('f, 'd, 't) M3U8Parser" where
  "parse_lines E s [] = Inr s"
| "parse_lines E s (line # lines) =
     (case parse_line E s line of
        Inl err \<Rightarrow> Inl err
      | Inr s' \<Rightarrow> parse_lines E s' lines)"

text \<open>
  The association pass: for each playlist, for each of \<open>audio\<close>, \<open>video\<close>,
  \<open>subtitles\<close>, the media of that group are appended to the playlist's list.
\<close>

definition associate_group :: "Media list \<Rightarrow> Playlist \<Rightarrow> string option \<Rightarrow> Playlist" where
  "associate_group ms pl group_id =
     (if truthy group_id
      then pl\<lparr>pl_media := pl_media pl @ filter (\<lambda>m. Some (media_group_id m) = group_id) ms\<rparr>
      else pl)"

definition associate :: "Media list \<Rightarrow> Playlist \<Rightarrow> Playlist" where
  "associate ms pl =
     foldl (\<lambda>p getattr. associate_group ms p (getattr (pl_stream_info pl))) pl
       [getattr_audio, getattr_video, getattr_subtitles]"

definition finish :: "('f, 'd, 't) M3U8Parser \<Rightarrow> ('f, 'd, 't) M3U8" where
  "finish s =
     (let doc = m3u8 s
      in doc\<lparr>playlists := map (associate (media doc)) (playlists doc),
              is_master := (playlists doc \<noteq> [])\<rparr>)"

text \<open>
  \<open>parse\<close> on a string. (The other kind of input, a response, only differs in where the
  lines come from; \<open>parse_from_lines\<close> is the rest of the function on the lines that are
  not empty.)
\<close>

definition parse_from_lines ::
  "('f, 'd, 't) stdlib \<Rightarrow> string option \<Rightarrow> string list \<Rightarrow> error + ('f, 'd, 't) M3U8" where
  "parse_from_lines E base_uri ls =
     (case ls of
        [] \<Rightarrow> Inr (m3u8 (M3U8Parser_init base_uri))
      | line # lines \<Rightarrow>
          if \<not> startswith line ''#EXTM3U'' then Inl MissingHeader
          else (case parse_lines E (M3U8Parser_init base_uri) lines of
                  Inl err \<Rightarrow> Inl err
                | Inr s \<Rightarrow> Inr (finish s)))"

definition nonempty_lines :: "string \<Rightarrow> string list" where
  "nonempty_lines data = filter (\<lambda>l. l \<noteq> []) (splitlines data)"

definition parse :: "('f, 'd, 't) stdlib \<Rightarrow> string option \<Rightarrow> string \<Rightarrow> error + ('f, 'd, 't) M3U8" where
  "parse E base_uri data = parse_from_lines E base_uri (nonempty_lines data)"

text \<open>
  An instance of the library, to run the parser on the concrete documents below: a
  number or a date is kept as its text, no reference has a scheme, and joining puts the
  reference after the base. It stands for the real library on those documents only.
\<close>

definition sample_lib :: "(string, string, string) stdlib" where
  "sample_lib =
     \<lparr>float_of_str =
        (\<lambda>s. if s \<noteq> [] \<and> list_all (\<lambda>c. is_digit c \<or> c = CHR ''.'') s then Some s else None),
      float_of_int = (\<lambda>n. ''0''),
      parse_datetime = (\<lambda>s. if s = [] then None else Some s),
      timedelta_seconds = (\<lambda>f. Some f),
      urlparse_scheme = (\<lambda>u. []),
      urljoin = (\<lambda>b u. b @ u)\<rparr>"

section \<open>The exceptions of the handlers\<close>

text \<open>No decoder and no handler raises the exception of the missing header.\<close>

lemma int_of_err: "int_of x = Inl e \<Longrightarrow> e \<noteq> MissingHeader"
  by (auto simp: int_of_def split: option.splits)

lemma float_of_err: "float_of E x = Inl e \<Longrightarrow> e \<noteq> MissingHeader"
  by (auto simp: float_of_def split: option.splits)

lemma parse_timedelta_err: "parse_timedelta E x = Inl e \<Longrightarrow> e \<noteq> MissingHeader"
  by (auto simp: parse_timedelta_def split: option.splits sum.splits dest: float_of_err)

lemma parse_hex_err: "parse_hex x = Inl e \<Longrightarrow> e \<noteq> MissingHeader"
  by (auto simp: parse_hex_def unhexlify_def split: option.splits sum.splits if_splits)

lemma parse_resolution_err: "parse_resolution x = Inl e \<Longrightarrow> e \<noteq> MissingHeader"
  by (auto simp: parse_resolution_def split: option.splits sum.splits dest: int_of_err)

lemma parse_byterange_err: "parse_byterange x = Inl e \<Longrightarrow> e \<noteq> MissingHeader"
  by (auto simp: parse_byterange_def split: option.splits sum.splits dest: int_of_err)

lemma parse_extinf_err: "parse_extinf E x = Inl e \<Longrightarrow> e \<noteq> MissingHeader"
  by (auto simp: parse_extinf_def split: option.splits sum.splits dest: float_of_err)

lemma stream_bandwidth_err: "stream_bandwidth x = Inl e \<Longrightarrow> e \<noteq> MissingHeader"
  by (auto simp: stream_bandwidth_def split: sum.splits if_splits dest: int_of_err)

lemma stream_resolution_err: "stream_resolution x = Inl e \<Longrightarrow> e \<noteq> MissingHeader"
  by (auto simp: stream_resolution_def split: option.splits sum.splits if_splits dest: parse_resolution_err)

lemma create_stream_info_err: "create_stream_info a b = Inl e \<Longrightarrow> e \<noteq> MissingHeader"
  by (auto simp: create_stream_info_def split: sum.splits if_splits
           dest: stream_bandwidth_err stream_resolution_err)

lemmas prim_errs = int_of_err float_of_err parse_timedelta_err parse_hex_err parse_resolution_err
  parse_byterange_err parse_extinf_err create_stream_info_err

lemmas handler_defs = parse_tag_ext_x_version_def parse_tag_extinf_def parse_tag_ext_x_byterange_def
  parse_tag_ext_x_discontinuity_def parse_tag_ext_x_key_def parse_tag_ext_x_map_def
  parse_tag_ext_x_program_date_time_def parse_tag_ext_x_daterange_def
  parse_tag_ext_x_targetduration_def parse_tag_ext_x_media_sequence_def
  parse_tag_ext_x_discontinuity_sequence_def parse_tag_ext_x_endlist_def
  parse_tag_ext_x_playlist_type_def parse_tag_ext_x_i_frames_only_def parse_tag_ext_x_media_def
  parse_tag_ext_x_stream_inf_def parse_tag_ext_x_i_frame_stream_inf_def
  parse_tag_ext_x_session_data_def parse_tag_ext_x_session_key_def
  parse_tag_ext_x_independent_segments_def parse_tag_ext_x_start_def
  parse_tag_ext_x_allow_cache_def

lemma handler_err:
  "(t, h) \<in> set TAGS \<Longrightarrow> h E s v = Inl e \<Longrightarrow> e \<noteq> MissingHeader"
  unfolding TAGS_def
  by (auto simp: handler_defs Let_def dict_pop_def split: prod.splits option.splits sum.splits if_splits
           dest: prim_errs)

lemma parse_line_err: "parse_line E s line = Inl e \<Longrightarrow> e \<noteq> MissingHeader"
  by (auto simp: parse_line_def get_playlist_def Let_def
           split: prod.splits option.splits sum.splits if_splits
           dest: handler_err[OF map_of_SomeD] create_stream_info_err)

lemma parse_lines_err: "parse_lines E s ls = Inl e \<Longrightarrow> e \<noteq> MissingHeader"
  by (induction ls arbitrary: s) (auto split: sum.splits dest: parse_line_err)

section \<open>The header\<close>

text \<open>
  Claim C1. When the first line that is not empty does not start with \<open>#EXTM3U\<close>,
  \<open>parse\<close> raises the exception of the missing header and returns no document. When
  it does, the header check raises nothing: the result of \<open>parse\<close> is the result of
  handling the lines after the header (and then the association pass), and it is never
  the exception of the missing header.
\<close>

theorem parse_header_check:
  assumes "nonempty_lines data = line # rest"
  shows "(\<not> startswith line ''#EXTM3U'' \<longrightarrow> parse E base_uri data = Inl MissingHeader) \<and>
         (startswith line ''#EXTM3U'' \<longrightarrow>
            parse E base_uri data \<noteq> Inl MissingHeader \<and>
            parse E base_uri data =
              (case parse_lines E (M3U8Parser_init base_uri) rest of
                 Inl err \<Rightarrow> Inl err
               | Inr s \<Rightarrow> Inr (finish s)))"
  using assms
  by (auto simp: parse_def parse_from_lines_def split: sum.splits dest: parse_lines_err)

theorem parse_header_check_witness:
  "nonempty_lines (''#EXTM3U'' @ [CHR 0x0A] @ ''#EXT-X-ENDLIST'') = [''#EXTM3U'', ''#EXT-X-ENDLIST''] \<and>
   startswith ''#EXTM3U'' ''#EXTM3U'' \<and>
   parse sample_lib None (''#EXTM3U'' @ [CHR 0x0A] @ ''#EXT-X-ENDLIST'') \<noteq> Inl MissingHeader \<and>
   nonempty_lines (''a.ts'' @ [CHR 0x0A] @ ''#EXTM3U'') = [''a.ts'', ''#EXTM3U''] \<and>
   \<not> startswith ''a.ts'' ''#EXTM3U'' \<and>
   parse sample_lib None (''a.ts'' @ [CHR 0x0A] @ ''#EXTM3U'') = Inl MissingHeader"
proof -
  have a: "nonempty_lines (''#EXTM3U'' @ [CHR 0x0A] @ ''#EXT-X-ENDLIST'') = [''#EXTM3U'', ''#EXT-X-ENDLIST'']"
    by (simp add: nonempty_lines_def splitlines_def is_linebreak_def code_def)
  have b: "nonempty_lines (''a.ts'' @ [CHR 0x0A] @ ''#EXTM3U'') = [''a.ts'', ''#EXTM3U'']"
    by (simp add: nonempty_lines_def splitlines_def is_linebreak_def code_def)
  have c: "startswith ''#EXTM3U'' ''#EXTM3U''" and d: "\<not> startswith ''a.ts'' ''#EXTM3U''"
    by (simp_all add: startswith_def)
  from parse_header_check[OF a, of sample_lib None] parse_header_check[OF b, of sample_lib None] a b c d
  show ?thesis by blast
qed

text \<open>
  Claim C9. On an input with no line that is not empty, \<open>parse\<close> returns the document
  as it was created: no segment, no playlist, \<open>is_master\<close> false, and no exception,
  though no header was seen.
\<close>

theorem parse_without_lines:
  "nonempty_lines data = [] \<Longrightarrow>
     parse E base_uri data = Inr (M3U8_init base_uri) \<and>
     segments (M3U8_init base_uri :: ('f, 'd, 't) M3U8) = [] \<and>
     playlists (M3U8_init base_uri :: ('f, 'd, 't) M3U8) = [] \<and>
     \<not> is_master (M3U8_init base_uri :: ('f, 'd, 't) M3U8)"
  by (simp add: parse_def parse_from_lines_def M3U8Parser_init_def M3U8_init_def)

theorem parse_without_lines_witness:
  "nonempty_lines [CHR 0x0A, CHR 0x0D, CHR 0x0A] = [] \<and>
   parse sample_lib None [CHR 0x0A, CHR 0x0D, CHR 0x0A] = Inr (M3U8_init None)"
proof -
  have h: "nonempty_lines [CHR 0x0A, CHR 0x0D, CHR 0x0A] = []"
    by (simp add: nonempty_lines_def splitlines_def is_linebreak_def code_def)
  from parse_without_lines[OF h, of sample_lib None] h show ?thesis by blast
qed

end
